theory Spec2Isabelle
  imports Main "HOL-Library.Sublist" "HOL-Library.FSet"
begin

section \<open>Strings, as Python 3 has them\<close>

text \<open>
  A Python 3 \<^verbatim>\<open>str\<close> is a sequence of Unicode code points and \<^verbatim>\<open>len\<close> counts code
  points, so a string is a list of code points here. \<open>lit\<close> embeds an ASCII literal.
\<close>

type_synonym codepoint = nat

type_synonym pystr = "codepoint list"

definition lit :: "string \<Rightarrow> pystr" where
  "lit cs = map of_char cs"

datatype error = KeyError | ValueError | IndexError | OverflowError | RuntimeError

text \<open>\<^verbatim>\<open>str.isspace\<close> on one code point: the characters \<^verbatim>\<open>str.strip()\<close> removes.\<close>

definition isspace :: "codepoint \<Rightarrow> bool" where
  "isspace c \<longleftrightarrow>
     (9 \<le> c \<and> c \<le> 13) \<or> (28 \<le> c \<and> c \<le> 32) \<or> c = 133 \<or> c = 160 \<or> c = 5760 \<or>
     (8192 \<le> c \<and> c \<le> 8202) \<or> c = 8232 \<or> c = 8233 \<or> c = 8239 \<or> c = 8287 \<or> c = 12288"

definition strip :: "pystr \<Rightarrow> pystr" where
  "strip s = rev (dropWhile isspace (rev (dropWhile isspace s)))"

text \<open>
  \<^verbatim>\<open>str.split(sep)\<close> with a separator: the string is cut at every occurrence of
  \<open>sep\<close>, scanning from the left; \<open>cur\<close> is the field being collected. Python raises
  ValueError for an empty separator; the only caller passes \<^verbatim>\<open>': '\<close>.
\<close>

function split_from :: "pystr \<Rightarrow> pystr \<Rightarrow> pystr \<Rightarrow> pystr list" where
  "split_from sep cur s =
     (if s = [] then [cur]
      else if sep \<noteq> [] \<and> prefix sep s then cur # split_from sep [] (drop (length sep) s)
      else split_from sep (cur @ [hd s]) (tl s))"
  by pat_completeness auto

termination
  by (relation "measure (\<lambda>(sep, cur, s). length s)") auto

declare split_from.simps [simp del]

definition split :: "pystr \<Rightarrow> pystr \<Rightarrow> pystr list" where
  "split s sep = split_from sep [] s"

text \<open>\<^verbatim>\<open>str(n)\<close> and \<^verbatim>\<open>'{}'.format(n)\<close> for a non-negative integer: its decimal digits.\<close>

fun str_nat :: "nat \<Rightarrow> pystr" where
  "str_nat n = (if n < 10 then [48 + n] else str_nat (n div 10) @ [48 + n mod 10])"

declare str_nat.simps [simp del]

text \<open>
  \<^verbatim>\<open>int(s)\<close> on a string: surrounding whitespace is stripped, one sign is allowed, then
  decimal digits follow, with single underscores allowed between digits. Anything else
  raises ValueError. The whitespace of \<^verbatim>\<open>int\<close> is that of \<^verbatim>\<open>str.isspace\<close> without
  the four separators U+001C to U+001F, which \<^verbatim>\<open>int\<close> rejects. A digit is an ASCII
  digit, or a code point to which the parameter \<open>decimal\<close> (the Unicode database's
  decimal-digit property beyond ASCII) gives a value.
\<close>

definition int_space :: "codepoint \<Rightarrow> bool" where
  "int_space c \<longleftrightarrow> isspace c \<and> \<not> (28 \<le> c \<and> c \<le> 31)"

definition int_strip :: "pystr \<Rightarrow> pystr" where
  "int_strip s = rev (dropWhile int_space (rev (dropWhile int_space s)))"

definition digit_value :: "(codepoint \<Rightarrow> nat option) \<Rightarrow> codepoint \<Rightarrow> nat option" where
  "digit_value decimal c = (if 48 \<le> c \<and> c \<le> 57 then Some (c - 48) else decimal c)"

fun parse_digits :: "(codepoint \<Rightarrow> nat option) \<Rightarrow> bool \<Rightarrow> nat \<Rightarrow> pystr \<Rightarrow> nat option" where
  "parse_digits decimal after_digit acc [] = (if after_digit then Some acc else None)"
| "parse_digits decimal after_digit acc (c # cs) =
     (if c = 95 then (if after_digit then parse_digits decimal False acc cs else None)
      else case digit_value decimal c of
             None \<Rightarrow> None
           | Some d \<Rightarrow> parse_digits decimal True (10 * acc + d) cs)"

definition py_int :: "(codepoint \<Rightarrow> nat option) \<Rightarrow> pystr \<Rightarrow> error + int" where
  "py_int decimal s =
     (let t = int_strip s;
          neg = (t \<noteq> [] \<and> hd t = 45);
          body = (if t \<noteq> [] \<and> (hd t = 45 \<or> hd t = 43) then tl t else t)
      in case parse_digits decimal False 0 body of
           None \<Rightarrow> Inl ValueError
         | Some n \<Rightarrow> Inr (if neg then - int n else int n))"

section \<open>The frame codec\<close>

text \<open>
  A stream is the text still to be read. \<^verbatim>\<open>readline()\<close> returns the text up to and
  including the next line feed, or all that is left when there is none (the empty string
  at the end of the stream); \<^verbatim>\<open>read(n)\<close> returns at most \<open>n\<close> characters, and
  everything that is left when \<open>n\<close> is negative; it raises OverflowError when \<open>n\<close>
  does not fit the index type of the platform, whose largest value is
  \<^verbatim>\<open>sys.maxsize\<close>. Both return the text and the stream after it.
\<close>

definition readline :: "pystr \<Rightarrow> pystr \<times> pystr" where
  "readline inp =
     (case dropWhile (\<lambda>c. c \<noteq> 10) inp of
        [] \<Rightarrow> (inp, [])
      | nl # rest \<Rightarrow> (takeWhile (\<lambda>c. c \<noteq> 10) inp @ [nl], rest))"

definition read :: "int \<Rightarrow> int \<Rightarrow> pystr \<Rightarrow> error + (pystr \<times> pystr)" where
  "read maxsize n inp =
     (if n > maxsize \<or> n < - maxsize - 1 then Inl OverflowError
      else if n < 0 then Inr (inp, [])
      else Inr (take (nat n) inp, drop (nat n) inp))"

lemma readline_shorter:
  assumes "fst (readline inp) \<noteq> []"
  shows "length (snd (readline inp)) < length inp"
proof (cases "dropWhile (\<lambda>c. c \<noteq> 10) inp")
  case Nil
  show ?thesis using assms unfolding readline_def Nil by simp
next
  case (Cons nl rest)
  have "length (dropWhile (\<lambda>c. c \<noteq> 10) inp) \<le> length inp"
    by (rule length_dropWhile_le)
  then show ?thesis unfolding readline_def Cons by simp
qed

lemma strip_nonempty: "strip s \<noteq> [] \<Longrightarrow> s \<noteq> []"
  by (auto simp: strip_def)

text \<open>
  \<^verbatim>\<open>Server.read_headers\<close>: lines are read and stripped until one is empty; every other
  line is split at \<^verbatim>\<open>': '\<close> and its second field stored under its first. A line with
  no separator has one field only, and \<^verbatim>\<open>parts[1]\<close> raises IndexError. The result
  comes with the stream as the call leaves it.
\<close>

function read_headers_from ::
  "(pystr \<rightharpoonup> pystr) \<Rightarrow> pystr \<Rightarrow> (error + (pystr \<rightharpoonup> pystr)) \<times> pystr" where
  "read_headers_from headers inp =
     (let line = strip (fst (readline inp)) in
      if line = [] then (Inr headers, snd (readline inp))
      else let parts = split line (lit '': '') in
           if length parts < 2 then (Inl IndexError, snd (readline inp))
           else read_headers_from (headers(parts ! 0 \<mapsto> parts ! 1)) (snd (readline inp)))"
  by pat_completeness auto

termination
  by (relation "measure (\<lambda>(headers, inp). length inp)")
     (auto dest!: strip_nonempty intro: readline_shorter)

declare read_headers_from.simps [simp del]

definition read_headers :: "pystr \<Rightarrow> (error + (pystr \<rightharpoonup> pystr)) \<times> pystr" where
  "read_headers inp = read_headers_from Map.empty inp"

text \<open>\<^verbatim>\<open>Server.read_content\<close>.\<close>

definition read_content :: "int \<Rightarrow> int \<Rightarrow> pystr \<Rightarrow> error + (pystr \<times> pystr)" where
  "read_content maxsize len inp = read maxsize len inp"

text \<open>
  \<^verbatim>\<open>Server.handle_output\<close> builds the text it writes from the platform flag
  (\<^verbatim>\<open>sys.platform == 'win32'\<close>) and the body.
\<close>

definition newlines :: "bool \<Rightarrow> pystr" where
  "newlines win32 = (if win32 then [10, 10] else [13, 10, 13, 10])"

definition full_output :: "bool \<Rightarrow> pystr \<Rightarrow> pystr" where
  "full_output win32 output_string =
     lit ''Content-Length: '' @ str_nat (length output_string) @ newlines win32 @ output_string"

text \<open>
  What a text written to a text-mode stream with the default newline handling becomes on
  its way out: each line feed is written as \<^verbatim>\<open>os.linesep\<close>, which is CRLF on Windows
  and the line feed itself elsewhere. The program runs its server on such streams
  (\<^verbatim>\<open>Server(sys.stdin, sys.stdout)\<close>).
\<close>

definition text_mode_write :: "bool \<Rightarrow> pystr \<Rightarrow> pystr" where
  "text_mode_write win32 text =
     (if win32 then concat (map (\<lambda>c. if c = 10 then [13, 10] else [c]) text) else text)"

section \<open>Values, the server object and the dispatch table\<close>

datatype pyval =
  PNone | PBool bool | PInt int | PStr pystr | PList "pyval list" | PDict "(pystr \<times> pyval) list"

text \<open>
  Modelled from the spec: the classes of \<^verbatim>\<open>contracts.initialization\<close> are not part of
  the source at hand. The capability descriptor has the eight fields that
  \<^verbatim>\<open>Server.initialize\<close> passes, and \<^verbatim>\<open>InitializeResult\<close> wraps it.
\<close>

datatype TextDocumentSyncKind = INCREMENTAL

record ServerCapabilities =
  textDocumentSync :: TextDocumentSyncKind
  definitionProvider :: bool
  referencesProvider :: bool
  documentFormattingProvider :: bool
  documentRangeFormattingProvider :: bool
  documentHighlightProvider :: bool
  hoverProvider :: bool
  completionProvider :: "pyval option"

datatype InitializeResult = InitializeResult ServerCapabilities

text \<open>
  A request as the JSON-RPC library hands it to the dispatcher, and what comes of it.
\<close>

datatype rpc_params = Positional "pyval list" | Named "(pystr \<times> pyval) list"

record rpc_request =
  rpc_method :: pystr
  rpc_params :: rpc_params

datatype rpc_result = Result pyval | MethodNotFound | InvalidParams | ServerError

text \<open>
  Modelled from the spec: \<^verbatim>\<open>connection_service\<close> is not part of the source at hand. Its
  handlers reach the server through \<^verbatim>\<open>register_thread\<close> and \<^verbatim>\<open>send_event\<close> only
  (workers are registered in the thread registry and report through the event emitter).
\<close>

datatype server_call = RegisterThread nat | SendEvent pystr pyval

text \<open>
  What the program takes from outside: the platform (with \<^verbatim>\<open>sys.maxsize\<close>), the
  Unicode database, the threads (whether \<^verbatim>\<open>join\<close> returns for a handle, or raises
  RuntimeError as it does for a thread that was not started and for the current one; and
  the order in which Python iterates a set of handles), the helper
  modules \<^verbatim>\<open>utils\<close> and \<^verbatim>\<open>json\<close> (the dictionary of an initialize result, the
  dictionary that \<^verbatim>\<open>capabilities\<close> builds from its constant descriptor, whose
  classes are not part of the source at hand, and the JSON text of the parameters of
  an event), the JSON-RPC library (which requests a body holds, and the JSON text of
  the response to them, if any) and the connection service.
\<close>

record externals =
  win32 :: bool
  maxsize :: int
  decimal :: "codepoint \<Rightarrow> nat option"
  join_returns :: "nat \<Rightarrow> bool"
  iteration :: "nat fset \<Rightarrow> nat list"
  object_to_dictionary :: "InitializeResult \<Rightarrow> pyval"
  capabilities_dictionary :: pyval
  dumps_dictionary :: "pyval \<Rightarrow> pystr"
  rpc_requests :: "pystr \<Rightarrow> rpc_request list"
  rpc_response :: "pystr \<Rightarrow> rpc_result list \<Rightarrow> pystr option"
  handle_connect_request :: "rpc_params \<Rightarrow> (server_call list \<times> rpc_result)"
  handle_disconnect_request :: "rpc_params \<Rightarrow> (server_call list \<times> rpc_result)"

text \<open>
  A server object: the two lifecycle flags, the set of tracked thread handles (a Python
  set is finite, and a handle is the identity of a thread object), the text
  still to be read from its input stream and the text written to its output stream,
  as it was passed to \<^verbatim>\<open>write\<close>.
  Servers live in a store, at an address; a bound method in the dispatch table carries
  the address of the server it was taken from, and the two handlers of a server's
  connection service carry the address of that server. The dispatch table is one
  object of the JSON-RPC library, shared by every server of the process. Logging and
  the flushing of a stream change nothing that is modelled.
\<close>

record server =
  is_shutdown :: bool
  should_exit :: bool
  threads :: "nat fset"
  input_stream :: pystr
  output_stream :: pystr

datatype handler =
  BoundInitialize nat
| BoundHandleConnect nat
| BoundHandleDisconnect nat
| BoundShutdown nat
| BoundExit nat
| BoundEcho nat
| Version
| Capabilities
| BoundWait nat

record world =
  dispatcher :: "pystr \<rightharpoonup> handler"
  servers :: "nat \<Rightarrow> server"

definition on_server :: "nat \<Rightarrow> (server \<Rightarrow> server) \<Rightarrow> world \<Rightarrow> world" where
  "on_server a f w = w\<lparr>servers := (servers w)(a := f (servers w a))\<rparr>"

text \<open>\<^verbatim>\<open>Server.__init__\<close>, for the new object at address \<open>a\<close>.\<close>

definition new_server :: "pystr \<Rightarrow> pystr \<Rightarrow> server" where
  "new_server inp out =
     \<lparr>is_shutdown = False, should_exit = False, threads = {||},
      input_stream = inp, output_stream = out\<rparr>"

definition init :: "nat \<Rightarrow> pystr \<Rightarrow> pystr \<Rightarrow> world \<Rightarrow> world" where
  "init a inp out w =
     \<lparr>dispatcher = (dispatcher w)(lit ''initialize'' \<mapsto> BoundInitialize a),
      servers = (servers w)(a := new_server inp out)\<rparr>"

definition initialize_dispatcher :: "nat \<Rightarrow> world \<Rightarrow> world" where
  "initialize_dispatcher a w =
     w\<lparr>dispatcher := (dispatcher w)
         (lit ''connection/connect'' \<mapsto> BoundHandleConnect a,
          lit ''connection/disconnect'' \<mapsto> BoundHandleDisconnect a,
          lit ''shutdown'' \<mapsto> BoundShutdown a,
          lit ''exit'' \<mapsto> BoundExit a,
          lit ''echo'' \<mapsto> BoundEcho a,
          lit ''version'' \<mapsto> Version,
          lit ''capabilities/list'' \<mapsto> Capabilities,
          lit ''wait'' \<mapsto> BoundWait a)\<rparr>"

definition initialize ::
  "externals \<Rightarrow> nat \<Rightarrow> pyval \<Rightarrow> pyval \<Rightarrow> pyval \<Rightarrow> pyval \<Rightarrow> pyval \<Rightarrow> pyval \<Rightarrow> world \<Rightarrow> pyval \<times> world" where
  "initialize E a processId rootPath rootUri initializationOptions capabilities trace w =
     (let w' = initialize_dispatcher a w;
          initialize_result = InitializeResult
            \<lparr>textDocumentSync = INCREMENTAL,
             definitionProvider = False,
             referencesProvider = False,
             documentFormattingProvider = False,
             documentRangeFormattingProvider = False,
             documentHighlightProvider = False,
             hoverProvider = False,
             completionProvider = None\<rparr>
      in (object_to_dictionary E initialize_result, w'))"

definition shutdown :: "server \<Rightarrow> server" where
  "shutdown s = s\<lparr>is_shutdown := True\<rparr>"

definition exit :: "server \<Rightarrow> server" where
  "exit s = s\<lparr>should_exit := True\<rparr>"

text \<open>
  \<^verbatim>\<open>Server.wait\<close> joins the tracked threads one after the other, in the order the set
  yields them; a join that raises ends the loop, and the exception leaves
  \<^verbatim>\<open>wait\<close>. \<open>join_each\<close> gives the handles joined and the exception, if any;
  \<open>wait\<close> returns them beside the server. A join that never returns is not modelled.
\<close>

fun join_each :: "(nat \<Rightarrow> bool) \<Rightarrow> nat list \<Rightarrow> nat list \<times> error option" where
  "join_each returns [] = ([], None)"
| "join_each returns (thread # rest) =
     (if returns thread
      then (thread # fst (join_each returns rest), snd (join_each returns rest))
      else ([], Some RuntimeError))"

definition wait :: "externals \<Rightarrow> server \<Rightarrow> (nat list \<times> error option) \<times> server" where
  "wait E s = (join_each (join_returns E) (iteration E (threads s)), s)"

definition register_thread :: "nat \<Rightarrow> server \<Rightarrow> server" where
  "register_thread thread s = s\<lparr>threads := finsert thread (threads s)\<rparr>"

definition echo :: "pystr \<Rightarrow> server \<Rightarrow> server" where
  "echo arg s = s\<lparr>output_stream := output_stream s @ arg\<rparr>"

definition handle_output :: "externals \<Rightarrow> pystr \<Rightarrow> server \<Rightarrow> server" where
  "handle_output E output_string s =
     s\<lparr>output_stream := output_stream s @ full_output (win32 E) output_string\<rparr>"

definition send_event :: "externals \<Rightarrow> pystr \<Rightarrow> pyval \<Rightarrow> server \<Rightarrow> server" where
  \<open>send_event E event_name event_params s =
     handle_output E
       (lit ''{"jsonrpc":"2.0","method":"'' @ event_name @ lit ''","params":''
          @ dumps_dictionary E event_params @ lit ''}'') s\<close>

definition version :: pyval where
  "version = PStr (lit ''0'')"

definition capabilities :: "externals \<Rightarrow> pyval \<Rightarrow> pyval \<Rightarrow> pyval" where
  "capabilities E hostName hostVersion = capabilities_dictionary E"

section \<open>Dispatch and the server loop\<close>

text \<open>
  How Python binds the parameters of a call to the names of a function: \<open>required\<close>
  is the number of leading parameters with no default, every default is \<^verbatim>\<open>None\<close>.
  A call that does not fit raises TypeError, which the JSON-RPC library reports as
  invalid parameters without running the handler.
\<close>

definition bind :: "pystr list \<Rightarrow> nat \<Rightarrow> rpc_params \<Rightarrow> pyval list option" where
  "bind names required ps =
     (case ps of
        Positional vs \<Rightarrow>
          if required \<le> length vs \<and> length vs \<le> length names
          then Some (vs @ replicate (length names - length vs) PNone) else None
      | Named kvs \<Rightarrow>
          if list_all (\<lambda>k. k \<in> set names) (map fst kvs)
             \<and> list_all (\<lambda>n. n \<in> set (map fst kvs)) (take required names)
          then Some (map (\<lambda>n. case map_of kvs n of None \<Rightarrow> PNone | Some v \<Rightarrow> v) names)
          else None)"

fun server_calls :: "externals \<Rightarrow> server_call list \<Rightarrow> server \<Rightarrow> server" where
  "server_calls E [] s = s"
| "server_calls E (RegisterThread thread # cs) s = server_calls E cs (register_thread thread s)"
| "server_calls E (SendEvent event_name event_params # cs) s =
     server_calls E cs (send_event E event_name event_params s)"

text \<open>
  Calling what the dispatch table holds. The library catches what a handler raises: a
  TypeError from a bound method it reports as invalid parameters, any other exception
  as a server error. \<^verbatim>\<open>echo\<close> writes its argument to the output stream, which takes
  text only: any other value makes the write raise TypeError. \<^verbatim>\<open>wait\<close> raises the
  RuntimeError of a join that fails.
\<close>

fun call_handler :: "externals \<Rightarrow> handler \<Rightarrow> rpc_params \<Rightarrow> world \<Rightarrow> rpc_result \<times> world" where
  "call_handler E (BoundInitialize a) ps w =
     (case bind [lit ''processId'', lit ''rootPath'', lit ''rootUri'',
                 lit ''initializationOptions'', lit ''capabilities'', lit ''trace''] 0 ps of
        None \<Rightarrow> (InvalidParams, w)
      | Some vs \<Rightarrow>
          (let (r, w') = initialize E a (vs ! 0) (vs ! 1) (vs ! 2) (vs ! 3) (vs ! 4) (vs ! 5) w
           in (Result r, w')))"
| "call_handler E (BoundHandleConnect a) ps w =
     (let (calls, r) = handle_connect_request E ps in (r, on_server a (server_calls E calls) w))"
| "call_handler E (BoundHandleDisconnect a) ps w =
     (let (calls, r) = handle_disconnect_request E ps in (r, on_server a (server_calls E calls) w))"
| "call_handler E (BoundShutdown a) ps w =
     (case bind [] 0 ps of
        None \<Rightarrow> (InvalidParams, w)
      | Some vs \<Rightarrow> (Result PNone, on_server a shutdown w))"
| "call_handler E (BoundExit a) ps w =
     (case bind [] 0 ps of
        None \<Rightarrow> (InvalidParams, w)
      | Some vs \<Rightarrow> (Result PNone, on_server a exit w))"
| "call_handler E (BoundEcho a) ps w =
     (case bind [lit ''arg''] 1 ps of
        None \<Rightarrow> (InvalidParams, w)
      | Some vs \<Rightarrow>
          (case vs ! 0 of
             PStr arg \<Rightarrow> (Result PNone, on_server a (echo arg) w)
           | _ \<Rightarrow> (InvalidParams, w)))"
| "call_handler E Version ps w =
     (case bind [] 0 ps of
        None \<Rightarrow> (InvalidParams, w)
      | Some vs \<Rightarrow> (Result version, w))"
| "call_handler E Capabilities ps w =
     (case bind [lit ''hostName'', lit ''hostVersion''] 2 ps of
        None \<Rightarrow> (InvalidParams, w)
      | Some vs \<Rightarrow> (Result (capabilities E (vs ! 0) (vs ! 1)), w))"
| "call_handler E (BoundWait a) ps w =
     (case bind [] 0 ps of
        None \<Rightarrow> (InvalidParams, w)
      | Some vs \<Rightarrow>
          (case snd (fst (wait E (servers w a))) of
             None \<Rightarrow> (Result PNone, on_server a (\<lambda>s. snd (wait E s)) w)
           | Some e \<Rightarrow> (ServerError, on_server a (\<lambda>s. snd (wait E s)) w)))"

text \<open>
  \<^verbatim>\<open>JSONRPCResponseManager.handle\<close>: each request of the body is looked up in the
  dispatch table as it stands then, and run; the library renders the response.
\<close>

fun run_requests :: "externals \<Rightarrow> rpc_request list \<Rightarrow> world \<Rightarrow> rpc_result list \<times> world" where
  "run_requests E [] w = ([], w)"
| "run_requests E (r # rs) w =
     (let (res, w1) = (case dispatcher w (rpc_method r) of
                         None \<Rightarrow> (MethodNotFound, w)
                       | Some h \<Rightarrow> call_handler E h (rpc_params r) w);
          (ress, w2) = run_requests E rs w1
      in (res # ress, w2))"

definition handle :: "externals \<Rightarrow> pystr \<Rightarrow> world \<Rightarrow> pystr option \<times> world" where
  "handle E request_str w =
     (let (ress, w') = run_requests E (rpc_requests E request_str) w
      in (rpc_response E request_str ress, w'))"

text \<open>
  \<^verbatim>\<open>Server.handle_input\<close> never returns: it ends with an exception that nothing
  catches, or with \<^verbatim>\<open>sys.exit\<close>. \<open>serve_frame\<close> is one turn of its loop, for the
  server at address \<open>a\<close>: the way the loop ends there, or the world the next turn
  starts from.
\<close>

datatype outcome = Raised error | SystemExit int

definition serve_frame :: "externals \<Rightarrow> nat \<Rightarrow> world \<Rightarrow> (outcome \<times> world) + world" where
  "serve_frame E a w =
     (let (hs, rest) = read_headers (input_stream (servers w a));
          w0 = on_server a (\<lambda>s. s\<lparr>input_stream := rest\<rparr>) w
      in case hs of
           Inl e \<Rightarrow> Inl (Raised e, w0)
         | Inr headers \<Rightarrow>
             (case headers (lit ''Content-Length'') of
                None \<Rightarrow> Inl (Raised KeyError, w0)
              | Some v \<Rightarrow>
                  (case py_int (decimal E) v of
                     Inl e \<Rightarrow> Inl (Raised e, w0)
                   | Inr len \<Rightarrow>
                       (case read_content (maxsize E) len rest of
                          Inl e \<Rightarrow> Inl (Raised e, w0)
                        | Inr (somestring, rest') \<Rightarrow>
                            (let w1 = on_server a (\<lambda>s. s\<lparr>input_stream := rest'\<rparr>) w0;
                                 (response, w2) = handle E somestring w1
                             in if should_exit (servers w2 a)
                                then Inl (SystemExit (if is_shutdown (servers w2 a) then 0 else 1), w2)
                                else case response of
                                       None \<Rightarrow> Inr w2
                                     | Some json \<Rightarrow> Inr (on_server a (handle_output E json) w2))))))"

lemma readline_Nil_iff: "fst (readline inp) = [] \<longleftrightarrow> inp = []"
proof (cases "dropWhile (\<lambda>c. c \<noteq> 10) inp")
  case Nil
  show ?thesis unfolding readline_def Nil by simp
next
  case (Cons nl rest)
  then have "inp \<noteq> []" by auto
  then show ?thesis unfolding readline_def Cons by simp
qed

lemma readline_le: "length (snd (readline inp)) \<le> length inp"
proof (cases "inp = []")
  case True
  then show ?thesis by (simp add: readline_def)
next
  case False
  then show ?thesis
    using readline_shorter [of inp] by (simp add: readline_Nil_iff)
qed

lemma read_headers_from_le: "length (snd (read_headers_from headers inp)) \<le> length inp"
proof (induction "length inp" arbitrary: headers inp rule: less_induct)
  case less
  show ?case
  proof (cases "strip (fst (readline inp)) = []")
    case True
    then show ?thesis
      using readline_le [of inp] by (subst read_headers_from.simps) simp
  next
    case False
    then have sh: "length (snd (readline inp)) < length inp"
      by (auto dest!: strip_nonempty intro: readline_shorter)
    have "length (snd (read_headers_from h (snd (readline inp)))) \<le> length (snd (readline inp))" for h
      using less [OF sh] .
    then have "length (snd (read_headers_from h (snd (readline inp)))) \<le> length inp" for h
      using sh by (meson le_trans less_imp_le_nat)
    then show ?thesis
      using False sh by (subst read_headers_from.simps) (simp add: Let_def)
  qed
qed

lemma read_headers_from_Nil: "read_headers_from headers [] = (Inr headers, [])"
  by (subst read_headers_from.simps) (simp add: readline_def strip_def)

lemma read_headers_from_shorter:
  assumes "inp \<noteq> []"
  shows "length (snd (read_headers_from headers inp)) < length inp"
proof -
  have "length (snd (readline inp)) < length inp"
    using assms by (simp add: readline_shorter readline_Nil_iff)
  moreover have "length (snd (read_headers_from headers inp)) \<le> length (snd (readline inp))"
    using read_headers_from_le [of _ "snd (readline inp)"]
    by (subst read_headers_from.simps) (simp add: Let_def)
  ultimately show ?thesis by simp
qed

lemma read_content_le: "read_content m len inp = Inr (text, rest) \<Longrightarrow> length rest \<le> length inp"
  by (auto simp: read_content_def read_def split: if_splits)

text \<open>What no method of the server undoes: the text read so far, and a flag once set.\<close>

definition keeps :: "server \<Rightarrow> server \<Rightarrow> bool" where
  "keeps s s' \<longleftrightarrow>
     input_stream s' = input_stream s \<and> (is_shutdown s \<longrightarrow> is_shutdown s') \<and>
     (should_exit s \<longrightarrow> should_exit s')"

definition keeps_all :: "world \<Rightarrow> world \<Rightarrow> bool" where
  "keeps_all w w' \<longleftrightarrow> (\<forall>b. keeps (servers w b) (servers w' b))"

lemma keeps_refl: "keeps s s"
  by (simp add: keeps_def)

lemma keeps_trans: "keeps s s' \<Longrightarrow> keeps s' s'' \<Longrightarrow> keeps s s''"
  by (simp add: keeps_def)

lemma keeps_all_refl: "keeps_all w w"
  by (simp add: keeps_all_def keeps_refl)

lemma keeps_all_trans: "keeps_all w w' \<Longrightarrow> keeps_all w' w'' \<Longrightarrow> keeps_all w w''"
  unfolding keeps_all_def by (blast intro: keeps_trans)

lemma keeps_all_on_server: "(\<And>s. keeps s (f s)) \<Longrightarrow> keeps_all w (on_server a f w)"
  by (simp add: keeps_all_def on_server_def keeps_refl)

lemma keeps_shutdown: "keeps s (shutdown s)"
  by (simp add: keeps_def shutdown_def)

lemma keeps_exit: "keeps s (exit s)"
  by (simp add: keeps_def exit_def)

lemma keeps_wait: "keeps s (snd (wait E s))"
  by (simp add: keeps_def wait_def)

lemma keeps_register_thread: "keeps s (register_thread thread s)"
  by (simp add: keeps_def register_thread_def)

lemma keeps_echo: "keeps s (echo arg s)"
  by (simp add: keeps_def echo_def)

lemma keeps_handle_output: "keeps s (handle_output E output_string s)"
  by (simp add: keeps_def handle_output_def)

lemma keeps_send_event: "keeps s (send_event E event_name event_params s)"
  unfolding send_event_def by (rule keeps_handle_output)

lemma keeps_server_calls: "keeps s (server_calls E calls s)"
proof (induction calls arbitrary: s)
  case Nil
  show ?case by (simp add: keeps_refl)
next
  case (Cons c cs)
  show ?case
  proof (cases c)
    case (RegisterThread thread)
    then show ?thesis
      using keeps_trans [OF keeps_register_thread Cons] by simp
  next
    case (SendEvent event_name event_params)
    then show ?thesis
      using keeps_trans [OF keeps_send_event Cons] by simp
  qed
qed

lemma keeps_all_initialize_dispatcher: "keeps_all w (initialize_dispatcher a w)"
  by (simp add: keeps_all_def initialize_dispatcher_def keeps_refl)

lemma keeps_all_initialize:
  "keeps_all w (snd (initialize E a p1 p2 p3 p4 p5 p6 w))"
  by (simp add: initialize_def Let_def keeps_all_initialize_dispatcher)

lemma keeps_all_call_handler: "keeps_all w (snd (call_handler E h ps w))"
proof (cases h)
  case (BoundInitialize a)
  then show ?thesis
    using keeps_all_initialize by (simp add: keeps_all_refl split: option.split prod.split) (metis snd_conv)
next
  case (BoundHandleConnect a)
  then show ?thesis
    by (simp add: keeps_all_on_server keeps_server_calls split: prod.split)
next
  case (BoundHandleDisconnect a)
  then show ?thesis
    by (simp add: keeps_all_on_server keeps_server_calls split: prod.split)
next
  case (BoundShutdown a)
  then show ?thesis
    by (simp add: keeps_all_refl keeps_all_on_server keeps_shutdown split: option.split)
next
  case (BoundExit a)
  then show ?thesis
    by (simp add: keeps_all_refl keeps_all_on_server keeps_exit split: option.split)
next
  case (BoundEcho a)
  then show ?thesis
    by (simp add: keeps_all_refl keeps_all_on_server keeps_echo split: option.split pyval.split)
next
  case Version
  then show ?thesis by (simp add: keeps_all_refl split: option.split)
next
  case Capabilities
  then show ?thesis by (simp add: keeps_all_refl split: option.split)
next
  case (BoundWait a)
  then show ?thesis
    by (simp add: keeps_all_refl keeps_all_on_server keeps_wait split: option.split)
qed

lemma keeps_all_run_requests: "keeps_all w (snd (run_requests E rs w))"
proof (induction rs arbitrary: w)
  case Nil
  show ?case by (simp add: keeps_all_refl)
next
  case (Cons r rs)
  define step where
    "step = (case dispatcher w (rpc_method r) of
               None \<Rightarrow> (MethodNotFound, w)
             | Some h \<Rightarrow> call_handler E h (rpc_params r) w)"
  have "keeps_all w (snd step)"
    unfolding step_def by (simp add: keeps_all_refl keeps_all_call_handler split: option.split)
  moreover have "keeps_all (snd step) (snd (run_requests E rs (snd step)))"
    by (rule Cons)
  moreover have "snd (run_requests E (r # rs) w) = snd (run_requests E rs (snd step))"
    by (simp add: step_def [symmetric] split: prod.split)
  ultimately show ?case
    by (simp only: keeps_all_trans)
qed

lemma keeps_all_handle: "keeps_all w (snd (handle E request_str w))"
  using keeps_all_run_requests [of w E "rpc_requests E request_str"]
  by (auto simp: handle_def split: prod.split)

lemma read_headers_Some_shorter:
  assumes "read_headers inp = (Inr headers, rest)" and "headers k = Some v"
  shows "length rest < length inp"
proof (cases "inp = []")
  case True
  then show ?thesis
    using assms by (auto simp: read_headers_def read_headers_from_Nil)
next
  case False
  then show ?thesis
    using read_headers_from_shorter [of inp Map.empty] assms(1) by (simp add: read_headers_def)
qed

lemma on_server_same: "servers (on_server a f w) a = f (servers w a)"
  by (simp add: on_server_def)

lemma serve_frame_shorter:
  assumes "serve_frame E a w = Inr w'"
  shows "length (input_stream (servers w' a)) < length (input_stream (servers w a))"
proof -
  obtain hs rest where rh: "read_headers (input_stream (servers w a)) = (hs, rest)"
    by (cases "read_headers (input_stream (servers w a))")
  define w0 where "w0 = on_server a (\<lambda>s. s\<lparr>input_stream := rest\<rparr>) w"
  from assms rh obtain headers v len where
    hs: "hs = Inr headers" and cl: "headers (lit ''Content-Length'') = Some v"
    and len: "py_int (decimal E) v = Inr len"
    by (auto simp: serve_frame_def Let_def split: sum.splits option.splits)
  from assms rh hs cl len obtain somestring rest' where
    rc: "read_content (maxsize E) len rest = Inr (somestring, rest')"
    by (auto simp: serve_frame_def Let_def split: sum.splits)
  define w1 where "w1 = on_server a (\<lambda>s. s\<lparr>input_stream := rest'\<rparr>) w0"
  obtain response w2 where h: "handle E somestring w1 = (response, w2)"
    by (cases "handle E somestring w1")
  have "keeps_all w1 w2"
    using keeps_all_handle [of w1 E somestring] h by simp
  then have in2: "input_stream (servers w2 a) = rest'"
    by (simp add: keeps_all_def keeps_def w1_def on_server_same)
  have w': "w' = w2 \<or> (\<exists>json. w' = on_server a (handle_output E json) w2)"
    using assms rh hs cl len rc h
    by (auto simp: serve_frame_def Let_def w0_def w1_def split: if_splits option.splits)
  have "input_stream (servers w' a) = rest'"
    using w' in2 by (auto simp: on_server_same handle_output_def)
  moreover have "length rest' \<le> length rest"
    using read_content_le [OF rc] .
  moreover have "length rest < length (input_stream (servers w a))"
    using read_headers_Some_shorter [of "input_stream (servers w a)" headers rest] rh hs cl
    by simp
  ultimately show ?thesis by simp
qed

function handle_input :: "externals \<Rightarrow> nat \<Rightarrow> world \<Rightarrow> outcome \<times> world" where
  "handle_input E a w =
     (case serve_frame E a w of
        Inl ended \<Rightarrow> ended
      | Inr w' \<Rightarrow> handle_input E a w')"
  by pat_completeness auto

termination
  by (relation "measure (\<lambda>(E, a, w). length (input_stream (servers w a)))")
     (auto intro: serve_frame_shorter)

declare handle_input.simps [simp del]

section \<open>Sample inputs\<close>

text \<open>
  A stand-in for the outside world, for running the model on concrete inputs: a
  non-Windows host of 64 bits, no digits beyond ASCII, threads that have all been
  started (every join returns) and are met in increasing order of their handles, and a
  JSON-RPC layer that reads the body as the name of one method called with no
  parameters and answers nothing.
\<close>

definition sample_externals :: externals where
  "sample_externals =
     \<lparr>win32 = False,
      maxsize = 9223372036854775807,
      decimal = (\<lambda>c. None),
      join_returns = (\<lambda>thread. True),
      iteration = sorted_list_of_fset,
      object_to_dictionary = (\<lambda>r. PDict []),
      capabilities_dictionary = PDict [],
      dumps_dictionary = (\<lambda>v. lit ''{}''),
      rpc_requests = (\<lambda>body. [\<lparr>rpc_method = body, rpc_params = Positional []\<rparr>]),
      rpc_response = (\<lambda>body results. None),
      handle_connect_request = (\<lambda>ps. ([], Result PNone)),
      handle_disconnect_request = (\<lambda>ps. ([], Result PNone))\<rparr>"

definition empty_world :: world where
  "empty_world = \<lparr>dispatcher = Map.empty, servers = (\<lambda>a. new_server [] [])\<rparr>"

text \<open>
  A frame as a client sends it, with CRLF line ends, and the world of a process that has
  just constructed its server, at address 0, on an input stream holding \<open>inp\<close>.
\<close>

definition frame :: "string \<Rightarrow> pystr" where
  "frame body = full_output False (lit body)"

definition sample_world :: "pystr \<Rightarrow> world" where
  "sample_world inp = init 0 inp [] empty_world"

section \<open>The words of the specification\<close>

text \<open>The methods that \<^verbatim>\<open>initialize_dispatcher\<close> binds.\<close>

definition domain_methods :: "pystr list" where
  "domain_methods =
     [lit ''connection/connect'', lit ''connection/disconnect'', lit ''shutdown'', lit ''exit'',
      lit ''echo'', lit ''version'', lit ''capabilities/list'', lit ''wait'']"

text \<open>
  The terminator as the specification words it: two line ends in the convention of the
  host, CRLF on Windows and LF elsewhere.
\<close>

definition spec_native_terminator :: "bool \<Rightarrow> pystr" where
  "spec_native_terminator windows_host = (if windows_host then [13, 10, 13, 10] else [10, 10])"

text \<open>A text in which \<^verbatim>\<open>': '\<close> does not occur.\<close>

fun no_sep :: "pystr \<Rightarrow> bool" where
  "no_sep [] = True"
| "no_sep [c] = True"
| "no_sep (c # d # s) = (\<not> (c = 58 \<and> d = 32) \<and> no_sep (d # s))"

text \<open>
  The length of a text in bytes, as the specification counts it: in UTF-8, the encoding
  of the protocol.
\<close>

definition utf8_bytes :: "codepoint \<Rightarrow> nat" where
  "utf8_bytes c = (if c < 128 then 1 else if c < 2048 then 2 else if c < 65536 then 3 else 4)"

definition utf8_length :: "pystr \<Rightarrow> nat" where
  "utf8_length s = sum_list (map utf8_bytes s)"

text \<open>A flag that is set stays set.\<close>

definition flags_kept :: "server \<Rightarrow> server \<Rightarrow> bool" where
  "flags_kept s s' \<longleftrightarrow>
     (is_shutdown s \<longrightarrow> is_shutdown s') \<and> (should_exit s \<longrightarrow> should_exit s')"

section \<open>Facts about the frame codec\<close>

lemma lit_simps [simp]: "lit [] = []" "lit (c # cs) = of_char c # lit cs"
  by (simp_all add: lit_def)

lemma split_from_no_sep:
  "no_sep x \<Longrightarrow> split_from [58, 32] cur (x @ [58, 32] @ rest) = (cur @ x) # split_from [58, 32] [] rest"
proof (induction x arbitrary: cur rule: no_sep.induct)
  case 1
  show ?case by (subst split_from.simps) simp
next
  case (2 c)
  show ?case
    by (subst split_from.simps, simp, subst split_from.simps, simp)
next
  case (3 c d s)
  then show ?case
    by (subst split_from.simps) auto
qed

lemma split_from_no_sep_end: "no_sep x \<Longrightarrow> split_from [58, 32] cur x = [cur @ x]"
proof (induction x arbitrary: cur rule: no_sep.induct)
  case 1
  show ?case by (subst split_from.simps) simp
next
  case (2 c)
  show ?case
    by (subst split_from.simps, simp, subst split_from.simps, simp)
next
  case (3 c d s)
  then show ?case
    by (subst split_from.simps) auto
qed

lemma split_two_fields:
  "no_sep name \<Longrightarrow> no_sep v \<Longrightarrow> split (name @ lit '': '' @ v) (lit '': '') = [name, v]"
  using split_from_no_sep [of name "[]" v] split_from_no_sep_end [of v "[]"]
  by (simp add: split_def)

lemma split_more_fields:
  "no_sep name \<Longrightarrow> no_sep v \<Longrightarrow>
   split (name @ lit '': '' @ v @ lit '': '' @ tail) (lit '': '') = name # v # split tail (lit '': '')"
  using split_from_no_sep [of name "[]" "v @ lit '': '' @ tail"] split_from_no_sep [of v "[]" tail]
  by (simp add: split_def)

lemma read_headers_from_field:
  assumes "strip (fst (readline inp)) = line" and "line \<noteq> []"
    and "split line (lit '': '') = name # v # more_fields"
  shows "read_headers_from headers inp = read_headers_from (headers(name \<mapsto> v)) (snd (readline inp))"
  using assms by (subst read_headers_from.simps) (simp add: Let_def)

lemma read_headers_from_blank:
  assumes "strip (fst (readline inp)) = []"
  shows "read_headers_from headers inp = (Inr headers, snd (readline inp))"
  using assms by (subst read_headers_from.simps) (simp add: Let_def)

lemma str_nat_digits: "c \<in> set (str_nat n) \<Longrightarrow> 48 \<le> c \<and> c \<le> 57"
proof (induction n rule: str_nat.induct)
  case (1 n)
  show ?case
  proof (cases "n < 10")
    case True
    then show ?thesis using "1.prems" by (simp add: str_nat.simps [of n])
  next
    case False
    then have "c \<in> set (str_nat (n div 10)) \<or> c = 48 + n mod 10"
      using "1.prems" by (auto simp: str_nat.simps [of n])
    then show ?thesis
      using "1.IH" [OF False] by auto
  qed
qed

lemma str_nat_nonempty: "str_nat n \<noteq> []"
  by (simp add: str_nat.simps [of n])

lemma readline_line: "10 \<notin> set x \<Longrightarrow> readline (x @ 10 # r) = (x @ [10], r)"
proof -
  assume a: "10 \<notin> set x"
  have "dropWhile (\<lambda>c. c \<noteq> 10) (x @ 10 # r) = 10 # r"
    using a by (subst dropWhile_append3) auto
  moreover have "takeWhile (\<lambda>c. c \<noteq> 10) (x @ 10 # r) = x"
    using a by (subst takeWhile_tail) auto
  ultimately show ?thesis by (simp add: readline_def)
qed

lemma dropWhile_all: "\<forall>c \<in> set ws. P c \<Longrightarrow> dropWhile P ws = []"
  by (induction ws) auto

lemma strip_spaces: "\<forall>c \<in> set ws. isspace c \<Longrightarrow> strip ws = []"
  by (simp add: strip_def dropWhile_all)

lemma strip_trailing:
  assumes "x \<noteq> []" and "\<not> isspace (hd x)" and "\<not> isspace (last x)" and "\<forall>c \<in> set ws. isspace c"
  shows "strip (x @ ws) = x"
proof -
  have "dropWhile isspace (x @ ws) = x @ ws"
    using assms(1,2) by (cases x) simp_all
  moreover have "dropWhile isspace (rev ws @ rev x) = dropWhile isspace (rev x)"
    using assms(4) by (intro dropWhile_append2) auto
  moreover have "dropWhile isspace (rev x) = rev x"
    using assms(1,3) by (cases "rev x") (simp_all add: hd_rev [symmetric])
  ultimately show ?thesis by (simp add: strip_def)
qed

lemma no_colon_no_sep: "58 \<notin> set x \<Longrightarrow> no_sep x"
  by (induction x rule: no_sep.induct) auto

lemma parse_digits_ascii:
  assumes "\<forall>c \<in> set ds. 48 \<le> c \<and> c \<le> 57" and "ds \<noteq> [] \<or> after_digit"
  shows "parse_digits dec after_digit acc ds = Some (foldl (\<lambda>a c. 10 * a + (c - 48)) acc ds)"
  using assms
proof (induction ds arbitrary: after_digit acc)
  case Nil
  then show ?case by simp
next
  case (Cons c ds)
  then show ?case by (simp add: digit_value_def)
qed

lemma value_str_nat: "foldl (\<lambda>a c. 10 * a + (c - 48)) 0 (str_nat n) = n"
proof (induction n rule: str_nat.induct)
  case (1 n)
  show ?case
  proof (cases "n < 10")
    case True
    then show ?thesis by (simp add: str_nat.simps [of n])
  next
    case False
    then show ?thesis
      using "1.IH" [OF False] by (simp add: str_nat.simps [of n])
  qed
qed

lemma int_strip_trailing:
  assumes "x \<noteq> []" and "\<not> int_space (hd x)" and "\<not> int_space (last x)"
  shows "int_strip x = x"
proof -
  have "dropWhile int_space x = x"
    using assms(1,2) by (cases x) simp_all
  moreover have "dropWhile int_space (rev x) = rev x"
    using assms(1,3) by (cases "rev x") (simp_all add: hd_rev [symmetric])
  ultimately show ?thesis by (simp add: int_strip_def)
qed

lemma py_int_str_nat: "py_int dec (str_nat n) = Inr (int n)"
proof -
  have d: "\<forall>c \<in> set (str_nat n). 48 \<le> c \<and> c \<le> 57"
    using str_nat_digits by blast
  have ne: "str_nat n \<noteq> []" by (rule str_nat_nonempty)
  have h: "48 \<le> hd (str_nat n) \<and> hd (str_nat n) \<le> 57" and l: "48 \<le> last (str_nat n) \<and> last (str_nat n) \<le> 57"
    using d ne by (simp_all)
  have s: "int_strip (str_nat n) = str_nat n"
    using h l ne by (intro int_strip_trailing) (auto simp: int_space_def isspace_def)
  have "parse_digits dec False 0 (str_nat n) = Some n"
    using parse_digits_ascii [OF d, of False dec 0] ne by (simp add: value_str_nat)
  then show ?thesis
    using h by (simp add: py_int_def s Let_def)
qed

lemma text_mode_write_append:
  "text_mode_write windows (x @ y) = text_mode_write windows x @ text_mode_write windows y"
  by (simp add: text_mode_write_def)

lemma text_mode_write_no_lf: "10 \<notin> set x \<Longrightarrow> text_mode_write windows x = x"
  by (induction x) (auto simp: text_mode_write_def)

lemma header_line_shape:
  defines "H n \<equiv> lit ''Content-Length: '' @ str_nat n"
  shows "10 \<notin> set (H n)" and "13 \<notin> set (H n)" and "H n \<noteq> []" and "\<not> isspace (hd (H n))"
    and "\<not> isspace (last (H n))"
proof -
  have d: "\<forall>c \<in> set (str_nat n). 48 \<le> c \<and> c \<le> 57"
    using str_nat_digits by blast
  show "10 \<notin> set (H n)" and "13 \<notin> set (H n)"
    using d by (auto simp: H_def)
  show "H n \<noteq> []" by (simp add: H_def)
  show "\<not> isspace (hd (H n))" by (simp add: H_def isspace_def)
  have "last (H n) = last (str_nat n)"
    by (simp add: H_def str_nat_nonempty)
  moreover have "last (str_nat n) \<in> set (str_nat n)"
    by (simp add: str_nat_nonempty)
  ultimately show "\<not> isspace (last (H n))"
    using d by (auto simp: isspace_def)
qed

lemma header_line_split:
  "split (lit ''Content-Length: '' @ str_nat n) (lit '': '') = [lit ''Content-Length'', str_nat n]"
proof -
  have "58 \<notin> set (str_nat n)"
    using str_nat_digits [of 58 n] by auto
  then have "no_sep (str_nat n)" by (rule no_colon_no_sep)
  moreover have "no_sep (lit ''Content-Length'')" by simp
  ultimately have "split (lit ''Content-Length'' @ lit '': '' @ str_nat n) (lit '': '')
      = [lit ''Content-Length'', str_nat n]"
    by (rule split_two_fields [rotated])
  then show ?thesis by simp
qed

lemma read_headers_frame:
  "read_headers (full_output windows s @ rest)
     = (Inr [lit ''Content-Length'' \<mapsto> str_nat (length s)], s @ rest)"
proof -
  define H where "H = lit ''Content-Length: '' @ str_nat (length s)"
  define eol :: pystr where "eol = (if windows then [] else [13])"
  note shape = header_line_shape [of "length s", folded H_def]
  have frame: "full_output windows s @ rest = (H @ eol) @ 10 # (eol @ 10 # s @ rest)"
    by (simp add: full_output_def newlines_def H_def eol_def)
  have no_lf: "10 \<notin> set (H @ eol)" "10 \<notin> set eol"
    using shape(1) by (simp_all add: eol_def)
  have sp: "\<forall>c \<in> set (eol @ [10]). isspace c"
    by (simp add: eol_def isspace_def)
  have first_line: "readline (full_output windows s @ rest) = ((H @ eol) @ [10], eol @ 10 # s @ rest)"
    unfolding frame by (rule readline_line [OF no_lf(1)])
  have "strip (H @ (eol @ [10])) = H"
    using shape sp by (intro strip_trailing)
  then have stripped: "strip (fst (readline (full_output windows s @ rest))) = H"
    by (simp add: first_line)
  have second_line: "readline (eol @ 10 # s @ rest) = (eol @ [10], s @ rest)"
    by (rule readline_line [OF no_lf(2)])
  have blank: "strip (fst (readline (eol @ 10 # s @ rest))) = []"
    using sp by (simp add: second_line strip_spaces)
  have "read_headers_from Map.empty (full_output windows s @ rest)
      = read_headers_from [lit ''Content-Length'' \<mapsto> str_nat (length s)] (eol @ 10 # s @ rest)"
    using read_headers_from_field [OF stripped shape(3), of "lit ''Content-Length''" "str_nat (length s)" "[]" Map.empty]
      header_line_split [of "length s"]
    by (simp add: H_def first_line)
  also have "\<dots> = (Inr [lit ''Content-Length'' \<mapsto> str_nat (length s)], s @ rest)"
    using read_headers_from_blank [OF blank] by (simp add: second_line)
  finally show ?thesis by (simp add: read_headers_def)
qed

lemma utf8_length_ascii: "\<forall>c \<in> set s. c < 128 \<Longrightarrow> utf8_length s = length s"
  by (induction s) (simp_all add: utf8_length_def utf8_bytes_def)

section \<open>Facts about the dispatch table and the server loop\<close>

lemma join_each_joined: "fst (join_each returns ts) = takeWhile returns ts"
  by (induction ts) auto

lemma join_each_error:
  "snd (join_each returns ts) = (if list_all returns ts then None else Some RuntimeError)"
  by (induction ts) auto

lemma sorted_list_of_fset_7: "sorted_list_of_fset {|7::nat|} = [7]"
  by (simp add: sorted_list_of_fset.rep_eq)

lemma sorted_list_of_fset_8_7: "sorted_list_of_fset {|8::nat, 7|} = [7, 8]"
  by (simp add: sorted_list_of_fset.rep_eq)

lemma initialize_dispatcher_twice:
  "initialize_dispatcher a (initialize_dispatcher a w) = initialize_dispatcher a w"
  by (simp add: initialize_dispatcher_def)

lemma domain_method_not_initialize: "m \<in> set domain_methods \<Longrightarrow> m \<noteq> lit ''initialize''"
  by (auto simp: domain_methods_def)

lemma initialize_dispatcher_binds:
  "m \<in> set domain_methods \<Longrightarrow> dispatcher (initialize_dispatcher a w) m \<noteq> None"
  by (auto simp: domain_methods_def initialize_dispatcher_def)

lemma handle_flags_kept:
  "flags_kept (servers w b) (servers (snd (handle E request_str w)) b)"
  using keeps_all_handle [of w E request_str] by (simp add: keeps_all_def keeps_def flags_kept_def)

lemma on_server_input_twice:
  "on_server a (\<lambda>s. s\<lparr>input_stream := r'\<rparr>) (on_server a (\<lambda>s. s\<lparr>input_stream := r\<rparr>) w)
     = on_server a (\<lambda>s. s\<lparr>input_stream := r'\<rparr>) w"
  by (simp add: on_server_def)

lemma serve_frame_flags_kept:
  assumes "serve_frame E a w = Inl (out, w') \<or> serve_frame E a w = Inr w'"
  shows "flags_kept (servers w b) (servers w' b)"
proof -
  obtain hs rest where rh: "read_headers (input_stream (servers w a)) = (hs, rest)"
    by (cases "read_headers (input_stream (servers w a))")
  define w0 where "w0 = on_server a (\<lambda>s. s\<lparr>input_stream := rest\<rparr>) w"
  have f0: "flags_kept (servers w b) (servers (on_server a (\<lambda>s. s\<lparr>input_stream := r\<rparr>) w) b)" for r
    by (simp add: flags_kept_def on_server_def)
  show ?thesis
  proof (cases "\<exists>headers v len somestring rest'. hs = Inr headers
      \<and> headers (lit ''Content-Length'') = Some v \<and> py_int (decimal E) v = Inr len
      \<and> read_content (maxsize E) len rest = Inr (somestring, rest')")
    case False
    then have "w' = w0"
      using assms rh
      by (auto simp: serve_frame_def Let_def w0_def split: sum.splits option.splits)
    then show ?thesis using f0 by (simp add: w0_def)
  next
    case True
    then obtain headers v len somestring rest' where hs: "hs = Inr headers"
      and cl: "headers (lit ''Content-Length'') = Some v" and len: "py_int (decimal E) v = Inr len"
      and rc: "read_content (maxsize E) len rest = Inr (somestring, rest')"
      by blast
    define w1 where "w1 = on_server a (\<lambda>s. s\<lparr>input_stream := rest'\<rparr>) w"
    obtain response w2 where h: "handle E somestring w1 = (response, w2)"
      by (cases "handle E somestring w1")
    have f2: "flags_kept (servers w b) (servers w2 b)"
      using f0 [of rest'] handle_flags_kept [of w1 b E somestring] h
      by (auto simp: w1_def flags_kept_def)
    have "w' = w2 \<or> (\<exists>json. w' = on_server a (handle_output E json) w2)"
      using assms rh hs cl len rc h
      by (auto simp: serve_frame_def Let_def w1_def on_server_input_twice
          split: if_splits option.splits)
    then show ?thesis
      using f2 by (auto simp: on_server_def flags_kept_def handle_output_def)
  qed
qed

lemma handle_input_flags_kept:
  "flags_kept (servers w b) (servers (snd (handle_input E a w)) b)"
proof (induction E a w rule: handle_input.induct)
  case (1 E a w)
  show ?case
  proof (cases "serve_frame E a w")
    case (Inl ended)
    then show ?thesis
      using serve_frame_flags_kept [of E a w "fst ended" "snd ended" b]
      by (subst handle_input.simps) simp
  next
    case (Inr w')
    have "flags_kept (servers w b) (servers w' b)"
      using serve_frame_flags_kept [of E a w _ w' b] Inr by simp
    moreover have "flags_kept (servers w' b) (servers (snd (handle_input E a w')) b)"
      using "1.IH" [OF Inr] .
    ultimately show ?thesis
      using Inr by (subst handle_input.simps) (auto simp: flags_kept_def)
  qed
qed




lemma serve_frame_bad_length:
  assumes "read_headers (input_stream (servers w a)) = (Inr headers, rest)"
    and "headers (lit ''Content-Length'') = None
         \<or> (\<exists>v. headers (lit ''Content-Length'') = Some v \<and> py_int (decimal E) v = Inl ValueError)"
  shows "serve_frame E a w
    = Inl (Raised (if headers (lit ''Content-Length'') = None then KeyError else ValueError),
           on_server a (\<lambda>s. s\<lparr>input_stream := rest\<rparr>) w)"
  using assms by (auto simp: serve_frame_def Let_def)



lemma keeps_flags_kept: "keeps s s' \<Longrightarrow> flags_kept s s'"
  by (simp add: keeps_def flags_kept_def)



section \<open>The claims\<close>



text \<open>
  The codec reads back the frame it wrote, counting characters: \<^verbatim>\<open>read_headers\<close>
  on the frame that \<^verbatim>\<open>handle_output\<close> writes for a body finds the declared length,
  \<^verbatim>\<open>int\<close> gives the number of characters of the body, and \<^verbatim>\<open>read_content\<close> of
  that many characters gives the body and leaves the stream right after it.
\<close>

lemma framing_round_trip:
  assumes "int (length s) \<le> m"
  shows "read_headers (full_output windows s @ rest)
       = (Inr [lit ''Content-Length'' \<mapsto> str_nat (length s)], s @ rest)
   \<and> py_int dec (str_nat (length s)) = Inr (int (length s))
   \<and> read_content m (int (length s)) (s @ rest) = Inr (s, rest)"
  using assms by (simp add: read_headers_frame py_int_str_nat read_content_def read_def)

text \<open>
  C2: the Content-Length recovered from an encoded frame is the length of the body in
  bytes. The code counts characters where the claim, the documentation of
  \<^verbatim>\<open>read_content\<close> and the protocol count bytes: for the body of the one character
  U+4E2D, three bytes long, \<^verbatim>\<open>handle_output\<close> declares 1 and the decoder reads one
  character; and when a peer declares the three bytes, the decoder reads three
  characters, two of them from the frame that follows.
\<close>

theorem content_length_not_bytes:
  "full_output False [20013] = lit ''Content-Length: 1'' @ [13, 10, 13, 10] @ [20013]
   \<and> read_headers (full_output False [20013] @ lit ''next'')
       = (Inr [lit ''Content-Length'' \<mapsto> lit ''1''], [20013] @ lit ''next'')
   \<and> py_int (\<lambda>c. None) (lit ''1'') = Inr 1
   \<and> read_content 9223372036854775807 1 ([20013] @ lit ''next'') = Inr ([20013], lit ''next'')
   \<and> utf8_length [20013] = 3
   \<and> read_content 9223372036854775807 3 ([20013] @ lit ''next'')
       = Inr ([20013] @ lit ''ne'', lit ''xt'')"
proof -
  have "str_nat (length [20013::nat]) = lit ''1''"
    by (simp add: str_nat.simps)
  then show ?thesis
    using read_headers_frame [of False "[20013]" "lit ''next''"] py_int_str_nat [of "\<lambda>c. None" 1]
    by (simp add: full_output_def newlines_def utf8_length_def utf8_bytes_def read_content_def
        read_def)
qed

text \<open>
  C3, as stated: the blank-line terminator of a frame is two line ends in the native
  convention of the host, two line feeds on a host that is not Windows. There the frame
  of the body \<^verbatim>\<open>{}\<close> reaches the peer with two CRLF pairs.
\<close>

theorem terminator_counterexample:
  "text_mode_write False (full_output False (lit ''{}''))
     = lit ''Content-Length: 2'' @ [13, 10, 13, 10] @ lit ''{}''
   \<and> newlines False \<noteq> spec_native_terminator False"
  by (simp add: text_mode_write_def full_output_def newlines_def spec_native_terminator_def
      str_nat.simps)

text \<open>
  C3, amended: the blank-line terminator between the Content-Length header and the body
  reaches the peer as two CRLF pairs on every host. On a host that is not Windows
  \<^verbatim>\<open>handle_output\<close> writes the two CRLF pairs itself; on Windows it writes two line
  feeds, which the text-mode standard output turns into two CRLF pairs, the native
  convention there.
\<close>

theorem terminator_by_platform:
  "output_stream (handle_output (E\<lparr>win32 := False\<rparr>) s sv) =
       output_stream sv @ lit ''Content-Length: '' @ str_nat (length s) @ [13, 10, 13, 10] @ s
   \<and> text_mode_write False (full_output False s) =
       lit ''Content-Length: '' @ str_nat (length s) @ [13, 10, 13, 10] @ s
   \<and> output_stream (handle_output (E\<lparr>win32 := True\<rparr>) s sv) =
       output_stream sv @ lit ''Content-Length: '' @ str_nat (length s) @ [10, 10] @ s
   \<and> text_mode_write True (full_output True s) =
       lit ''Content-Length: '' @ str_nat (length s) @ [13, 10, 13, 10] @ text_mode_write True s"
proof -
  have "10 \<notin> set (lit ''Content-Length: '' @ str_nat (length s))"
    by (rule header_line_shape)
  then have "text_mode_write True (lit ''Content-Length: '' @ str_nat (length s))
      = lit ''Content-Length: '' @ str_nat (length s)"
    by (rule text_mode_write_no_lf)
  then have "text_mode_write True (full_output True s) =
       lit ''Content-Length: '' @ str_nat (length s) @ [13, 10, 13, 10] @ text_mode_write True s"
    unfolding full_output_def newlines_def
    by (simp add: text_mode_write_append [of True "lit ''Content-Length: '' @ str_nat (length s)", simplified]
        text_mode_write_def)
  then show ?thesis
    by (simp add: full_output_def newlines_def handle_output_def text_mode_write_def)
qed

text \<open>
  C4, as stated: on every freshly constructed server a domain method is not found before
  \<^verbatim>\<open>initialize\<close>. The dispatch table is shared: once the server at address 0 has
  filled it, a new server at address 1 finds \<^verbatim>\<open>shutdown\<close> bound (to the server at
  address 0) before its own \<^verbatim>\<open>initialize\<close> has run.
\<close>

theorem gating_counterexample:
  "dispatcher
     (init 1 [] []
        (snd (initialize sample_externals 0 PNone PNone PNone PNone PNone PNone
                (init 0 [] [] empty_world))))
     (lit ''shutdown'')
     = Some (BoundShutdown 0)"
  by (simp add: init_def initialize_def initialize_dispatcher_def empty_world_def Let_def)

text \<open>
  C4, amended: for a server constructed while the shared dispatch table binds no domain
  method (as when the process starts), every domain method is not found before
  \<^verbatim>\<open>initialize\<close>, the construction binds \<^verbatim>\<open>initialize\<close> and nothing else, and after
  \<^verbatim>\<open>initialize\<close> every domain method resolves to a handler.
\<close>

theorem handshake_gating:
  assumes "\<forall>m \<in> set domain_methods. dispatcher w m = None"
  shows "(\<forall>m \<in> set domain_methods. dispatcher (init a inp out w) m = None)
    \<and> dispatcher (init a inp out w) (lit ''initialize'') = Some (BoundInitialize a)
    \<and> dom (dispatcher (init a inp out w)) = insert (lit ''initialize'') (dom (dispatcher w))
    \<and> (\<forall>m \<in> set domain_methods.
          dispatcher (snd (initialize E a p1 p2 p3 p4 p5 p6 (init a inp out w))) m \<noteq> None)"
proof -
  have "dispatcher (init a inp out w) m = None" if "m \<in> set domain_methods" for m
    using that assms domain_method_not_initialize [OF that] by (simp add: init_def)
  moreover have "dispatcher (init a inp out w) (lit ''initialize'') = Some (BoundInitialize a)"
    by (simp add: init_def)
  moreover have "dom (dispatcher (init a inp out w)) = insert (lit ''initialize'') (dom (dispatcher w))"
    by (simp add: init_def)
  moreover have "dispatcher (snd (initialize E a p1 p2 p3 p4 p5 p6 (init a inp out w))) m \<noteq> None"
    if "m \<in> set domain_methods" for m
    using initialize_dispatcher_binds [OF that] by (simp add: initialize_def Let_def)
  ultimately show ?thesis by blast
qed

theorem handshake_gating_witness:
  "list_all (\<lambda>m. dispatcher (init 0 [] [] empty_world) m = None) domain_methods
    \<and> dispatcher (init 0 [] [] empty_world) (lit ''initialize'') = Some (BoundInitialize 0)
    \<and> dom (dispatcher (init 0 [] [] empty_world)) = {lit ''initialize''}
    \<and> list_all (\<lambda>m. dispatcher (snd (initialize sample_externals 0 PNone PNone PNone PNone PNone PNone
             (init 0 [] [] empty_world))) m \<noteq> None) domain_methods"
proof -
  have "\<forall>m \<in> set domain_methods. dispatcher empty_world m = None"
    by (simp add: empty_world_def)
  from handshake_gating [OF this, of 0 "[]" "[]" sample_externals PNone PNone PNone PNone PNone PNone]
  show ?thesis by (simp add: empty_world_def list_all_iff)
qed

text \<open>
  C5: a second \<^verbatim>\<open>initialize\<close> on the same server leaves the world of the first,
  the dispatch table with its names and handlers included, and returns the same result.
\<close>

theorem initialize_idempotent:
  "snd (initialize E a q1 q2 q3 q4 q5 q6 (snd (initialize E a p1 p2 p3 p4 p5 p6 w)))
     = snd (initialize E a p1 p2 p3 p4 p5 p6 w)
   \<and> fst (initialize E a q1 q2 q3 q4 q5 q6 (snd (initialize E a p1 p2 p3 p4 p5 p6 w)))
     = fst (initialize E a p1 p2 p3 p4 p5 p6 w)"
  by (simp add: initialize_def Let_def initialize_dispatcher_twice)

text \<open>
  C6: when the header block that the loop reads has no \<^verbatim>\<open>Content-Length\<close> entry
  (KeyError), or one that \<^verbatim>\<open>int\<close> rejects (ValueError), the exception leaves
  \<^verbatim>\<open>handle_input\<close>: the run ends there, and the world it leaves is the one it
  started from with the header block read, no handler run, nothing written, and the rest
  of the stream unread.
\<close>

theorem framing_error_is_fatal:
  assumes "read_headers (input_stream (servers w a)) = (Inr headers, rest)"
    and "headers (lit ''Content-Length'') = None
         \<or> (\<exists>v. headers (lit ''Content-Length'') = Some v \<and> py_int (decimal E) v = Inl ValueError)"
  shows "handle_input E a w
    = (Raised (if headers (lit ''Content-Length'') = None then KeyError else ValueError),
       on_server a (\<lambda>s. s\<lparr>input_stream := rest\<rparr>) w)"
  using serve_frame_bad_length [OF assms] by (subst handle_input.simps) simp

theorem framing_error_is_fatal_witness:
  "handle_input sample_externals 0
      (sample_world (lit ''Content-Length: x'' @ [13, 10, 13, 10] @ frame ''exit''))
     = (Raised ValueError, sample_world (frame ''exit''))
   \<and> handle_input sample_externals 0
      (sample_world (lit ''Content-Type: json'' @ [13, 10, 13, 10] @ frame ''exit''))
     = (Raised KeyError, sample_world (frame ''exit''))"
proof -
  let ?bad = "lit ''Content-Length: x'' @ [13, 10, 13, 10] @ frame ''exit''"
  let ?none = "lit ''Content-Type: json'' @ [13, 10, 13, 10] @ frame ''exit''"
  have h1: "read_headers ?bad = (Inr [lit ''Content-Length'' \<mapsto> lit ''x''], frame ''exit'')"
    by (simp add: read_headers_def read_headers_from.simps readline_def strip_def isspace_def
        split_def split_from.simps Let_def)
  have h2: "read_headers ?none = (Inr [lit ''Content-Type'' \<mapsto> lit ''json''], frame ''exit'')"
    by (simp add: read_headers_def read_headers_from.simps readline_def strip_def isspace_def
        split_def split_from.simps Let_def)
  have v: "py_int (decimal sample_externals) (lit ''x'') = Inl ValueError"
    by (simp add: py_int_def int_strip_def int_space_def isspace_def digit_value_def
        sample_externals_def Let_def)
  have w: "on_server 0 (\<lambda>s. s\<lparr>input_stream := r\<rparr>) (sample_world inp) = sample_world r" for inp r
    by (simp add: on_server_def sample_world_def init_def new_server_def)
  have i: "input_stream (servers (sample_world inp) 0) = inp" for inp
    by (simp add: sample_world_def init_def new_server_def)
  have b1: "read_headers (input_stream (servers (sample_world ?bad) 0))
      = (Inr [lit ''Content-Length'' \<mapsto> lit ''x''], frame ''exit'')"
    unfolding i by (rule h1)
  have c1: "[lit ''Content-Length'' \<mapsto> lit ''x''] (lit ''Content-Length'') = None
      \<or> (\<exists>v. [lit ''Content-Length'' \<mapsto> lit ''x''] (lit ''Content-Length'') = Some v
            \<and> py_int (decimal sample_externals) v = Inl ValueError)"
    using v by simp
  have b2: "read_headers (input_stream (servers (sample_world ?none) 0))
      = (Inr [lit ''Content-Type'' \<mapsto> lit ''json''], frame ''exit'')"
    unfolding i by (rule h2)
  have c2: "[lit ''Content-Type'' \<mapsto> lit ''json''] (lit ''Content-Length'') = None
      \<or> (\<exists>v. [lit ''Content-Type'' \<mapsto> lit ''json''] (lit ''Content-Length'') = Some v
            \<and> py_int (decimal sample_externals) v = Inl ValueError)"
    by simp
  have "handle_input sample_externals 0 (sample_world ?bad)
      = (Raised ValueError, sample_world (frame ''exit''))"
    unfolding framing_error_is_fatal [OF b1 c1] w by simp
  moreover have "handle_input sample_externals 0 (sample_world ?none)
      = (Raised KeyError, sample_world (frame ''exit''))"
    unfolding framing_error_is_fatal [OF b2 c2] w by simp
  ultimately show ?thesis by simp
qed

text \<open>
  C7, as stated: after \<^verbatim>\<open>wait\<close> the set of tracked threads is empty, and
  \<^verbatim>\<open>register_thread\<close> grows it by one per call. A server with one registered
  thread, which \<^verbatim>\<open>wait\<close> joins, still tracks it after \<^verbatim>\<open>wait\<close>, and registering
  the same handle twice leaves one handle.
\<close>

theorem wait_counterexample:
  "fst (wait sample_externals (register_thread 7 (new_server [] []))) = ([7], None)
   \<and> threads (snd (wait sample_externals (register_thread 7 (new_server [] [])))) = {|7|}
   \<and> threads (snd (wait sample_externals (register_thread 7 (new_server [] [])))) \<noteq> {||}
   \<and> fcard (threads (register_thread 7 (register_thread 7 (new_server [] [])))) = 1"
  by (simp add: wait_def register_thread_def new_server_def fcard_finsert_if sample_externals_def
      sorted_list_of_fset_7)

text \<open>
  C7, amended: \<^verbatim>\<open>wait\<close> joins the tracked handles in the order the set yields them,
  up to the first one whose join raises (RuntimeError, as for a thread that was not
  started): when every join returns it joins every tracked handle and returns, otherwise
  the exception leaves \<^verbatim>\<open>wait\<close> with the later handles not joined. In both cases the
  server, its thread set included, is left as it was. \<^verbatim>\<open>register_thread\<close> adds the
  handle to the set, which grows by one when the handle was not tracked and stays as it
  is otherwise.
\<close>

theorem wait_keeps_threads:
  "fst (fst (wait E s)) = takeWhile (join_returns E) (iteration E (threads s))
   \<and> snd (fst (wait E s))
       = (if list_all (join_returns E) (iteration E (threads s)) then None else Some RuntimeError)
   \<and> (fset_of_list (iteration E (threads s)) = threads s
        \<and> list_all (join_returns E) (iteration E (threads s))
        \<longrightarrow> fset_of_list (fst (fst (wait E s))) = threads s)
   \<and> snd (wait E s) = s
   \<and> threads (register_thread thread s) = finsert thread (threads s)
   \<and> fcard (threads (register_thread thread s)) =
       (if thread |\<in>| threads s then fcard (threads s) else fcard (threads s) + 1)"
proof -
  have all: "takeWhile (join_returns E) ts = ts" if "list_all (join_returns E) ts" for ts
    using that by (induction ts) auto
  have "fset_of_list (fst (fst (wait E s))) = threads s"
    if "fset_of_list (iteration E (threads s)) = threads s"
      and "list_all (join_returns E) (iteration E (threads s))"
    by (simp only: wait_def fst_conv join_each_joined all [OF that(2)] that(1))
  then show ?thesis
    by (simp add: wait_def register_thread_def fcard_finsert_if join_each_joined join_each_error)
qed

theorem wait_keeps_threads_witness:
  "fst (wait (sample_externals\<lparr>join_returns := (\<lambda>thread. thread \<noteq> 8)\<rparr>)
          (register_thread 8 (register_thread 7 (new_server [] []))))
     = ([7], Some RuntimeError)
   \<and> fset_of_list (fst (fst (wait sample_externals (register_thread 7 (new_server [] [])))))
     = {|7|}
   \<and> threads (snd (wait sample_externals (register_thread 7 (new_server [] [])))) = {|7|}"
proof -
  let ?s = "register_thread 7 (new_server [] [])"
  let ?s2 = "register_thread 8 ?s"
  let ?E = "sample_externals\<lparr>join_returns := (\<lambda>thread. thread \<noteq> 8)\<rparr>"
  have t: "threads ?s = {|7|}" "threads ?s2 = {|8, 7|}"
    by (simp_all add: register_thread_def new_server_def)
  have i: "iteration sample_externals {|7|} = [7]" "iteration sample_externals {|8, 7|} = [7, 8]"
    by (simp_all add: sample_externals_def sorted_list_of_fset_7 sorted_list_of_fset_8_7)
  have j: "join_returns sample_externals = (\<lambda>thread. True)"
    "join_returns ?E = (\<lambda>thread. thread \<noteq> 8)"
    by (simp_all add: sample_externals_def)
  show ?thesis
    using wait_keeps_threads [of ?E ?s2 0] wait_keeps_threads [of sample_externals ?s 0]
    by (simp add: t i j prod_eq_iff)
qed

text \<open>
  C8, as stated: a header line is split at the first \<^verbatim>\<open>': '\<close> only, so a value that
  holds \<^verbatim>\<open>': '\<close> is stored whole. For the line \<^verbatim>\<open>X: a: b\<close> the value stored under
  \<^verbatim>\<open>X\<close> is \<^verbatim>\<open>a\<close>, not \<^verbatim>\<open>a: b\<close>.
\<close>

theorem header_value_counterexample:
  "(case fst (read_headers (lit ''X: a: b'' @ [10, 10])) of
      Inl e \<Rightarrow> None
    | Inr headers \<Rightarrow> headers (lit ''X'')) = Some (lit ''a'')
   \<and> lit ''a'' \<noteq> lit ''a: b''"
  by (simp add: read_headers_def read_headers_from.simps readline_def strip_def isspace_def
      split_def split_from.simps Let_def)

text \<open>
  C8, amended: a non-empty header line is split at every occurrence of \<^verbatim>\<open>': '\<close>; the
  text before the first separator is the header name, and the value stored under it is
  the text between the first separator and the second one, or the end of the line when
  there is no second one. What follows a second separator is dropped.
\<close>

theorem header_line_fields:
  assumes "no_sep name" and "no_sep v"
    and "strip (fst (readline inp)) = name @ lit '': '' @ v @ line_end"
    and "line_end = [] \<or> (\<exists>dropped. line_end = lit '': '' @ dropped)"
  shows "read_headers_from headers inp
           = read_headers_from (headers(name \<mapsto> v)) (snd (readline inp))"
proof -
  have "\<exists>more_fields. split (name @ lit '': '' @ v @ line_end) (lit '': '') = name # v # more_fields"
    using assms(4) split_two_fields [OF assms(1,2)] split_more_fields [OF assms(1,2)]
    by auto
  then show ?thesis
    using read_headers_from_field [OF assms(3)] by auto
qed

theorem header_line_fields_witness:
  "read_headers_from Map.empty (lit ''X: a: b'' @ [10, 10])
     = (Inr [lit ''X'' \<mapsto> lit ''a''], [])"
proof -
  have l: "readline (lit ''X: a: b'' @ [10, 10]) = (lit ''X: a: b'' @ [10], [10])"
    by (simp add: readline_def)
  have s: "strip (fst (readline (lit ''X: a: b'' @ [10, 10])))
             = lit ''X'' @ lit '': '' @ lit ''a'' @ lit '': b''"
    unfolding l by (simp add: strip_def isspace_def)
  have "read_headers_from Map.empty (lit ''X: a: b'' @ [10, 10])
          = read_headers_from [lit ''X'' \<mapsto> lit ''a''] [10]"
    using header_line_fields [OF _ _ s, of Map.empty] l by simp
  moreover have "read_headers_from [lit ''X'' \<mapsto> lit ''a''] [10] = (Inr [lit ''X'' \<mapsto> lit ''a''], [])"
    by (rule trans [OF read_headers_from_blank]) (simp_all add: readline_def strip_def isspace_def)
  ultimately show ?thesis by simp
qed

text \<open>
  C9: the result of \<^verbatim>\<open>initialize\<close>, and the world it leaves, do not depend on any
  of its six parameters.
\<close>

theorem initialize_ignores_parameters:
  "initialize E a p1 p2 p3 p4 p5 p6 w = initialize E a q1 q2 q3 q4 q5 q6 w"
  by (simp add: initialize_def)

text \<open>
  C10: both flags are false in a new server; \<^verbatim>\<open>shutdown\<close> and \<^verbatim>\<open>exit\<close> set
  theirs; and no method of the server, no dispatch of a request and no run of the server
  loop turns a flag that is set back to false, in any server of the store.
\<close>

theorem lifecycle_flags_monotone:
  "\<not> is_shutdown (new_server inp out) \<and> \<not> should_exit (new_server inp out)
   \<and> is_shutdown (shutdown s) \<and> should_exit (exit s)
   \<and> flags_kept s (shutdown s) \<and> flags_kept s (exit s) \<and> flags_kept s (snd (wait E s))
   \<and> flags_kept s (register_thread thread s) \<and> flags_kept s (echo arg s)
   \<and> flags_kept s (send_event E event_name event_params s)
   \<and> flags_kept s (handle_output E output_string s)
   \<and> flags_kept (servers w b) (servers (snd (initialize E a p1 p2 p3 p4 p5 p6 w)) b)
   \<and> flags_kept (servers w b) (servers (snd (handle E request_str w)) b)
   \<and> flags_kept (servers w b) (servers (snd (handle_input E a w)) b)"
proof -
  have "flags_kept (servers w b) (servers (snd (initialize E a p1 p2 p3 p4 p5 p6 w)) b)"
    using keeps_all_initialize [of w E a p1 p2 p3 p4 p5 p6]
    by (simp add: keeps_all_def keeps_flags_kept)
  moreover have "is_shutdown (shutdown s)" and "should_exit (exit s)"
    by (simp_all add: shutdown_def exit_def)
  ultimately show ?thesis
    by (simp add: new_server_def keeps_flags_kept keeps_shutdown keeps_exit
        keeps_wait keeps_register_thread keeps_echo keeps_send_event keeps_handle_output
        handle_flags_kept handle_input_flags_kept)
qed

theorem lifecycle_flags_monotone_witness:
  "is_shutdown (servers (snd (handle_input sample_externals 0
      (on_server 0 shutdown (sample_world (frame ''initialize'' @ frame ''wait''))))) 0)
   \<and> should_exit (handle_output sample_externals (lit ''{}'') (exit (new_server [] [])))"
proof -
  let ?w = "on_server 0 shutdown (sample_world (frame ''initialize'' @ frame ''wait''))"
  have "is_shutdown (servers ?w 0)"
    by (simp add: on_server_def shutdown_def)
  moreover have "should_exit (exit (new_server [] []))"
    by (simp add: exit_def)
  moreover note lifecycle_flags_monotone [where s = "exit (new_server [] [])"
      and E = sample_externals and output_string = "lit ''{}''" and w = ?w and b = 0 and a = 0]
  ultimately show ?thesis
    by (simp add: flags_kept_def)
qed

end
